theory Spec2Isabelle
  imports Main "HOL-Library.Word"
begin

text \<open>
  A shallow embedding of parts of the StackTrace library: \<open>findfirst\<close>, the symbol
  cache (\<open>getSymbols2\<close>, \<open>getSymbols\<close>, \<open>getDataFromGlobalSymbols\<close>), the resolver
  (\<open>getFileAndLine\<close>, \<open>getStackInfo\<close>) and \<open>GetModuleListTH32\<close> from StackTrace.cpp,
  \<open>Utilities::terminate\<close> from Utilities.cpp, and the serialization of a frame. What
  the operating system, the C library and the external tools answer is an argument of
  the functions; static and global variables are fields of a state that the functions
  take and return. The execution is that of one thread.
\<close>



section \<open>Build configuration\<close>

text \<open>
  StackTrace.cpp selects its code with preprocessor symbols. The operating system
  decides \<open>USE_LINUX\<close>, \<open>USE_MAC\<close> and \<open>USE_WINDOWS\<close>; \<open>USE_NM\<close> is defined on
  Linux and on the Mac; \<open>USE_ABI\<close> is defined by GNU compilers; \<open>_GNU_SOURCE\<close> comes
  from the compiler's command line.
\<close>

datatype platform = Linux | Mac | Windows

record build =
  os :: platform
  GNU_SOURCE :: bool
  USE_ABI :: bool



definition USE_NM :: "'a build_scheme \<Rightarrow> bool" where
  "USE_NM b \<longleftrightarrow> os b = Linux \<or> os b = Mac"


section \<open>Data\<close>

text \<open>
  A \<open>void *\<close> is a 64-bit word (the platforms that use \<open>nm\<close> are LP64, where
  \<open>size_t\<close> and \<open>unsigned long\<close> have the same width). Pointers are compared as
  unsigned numbers, which is the order of \<open>64 word\<close>.
\<close>

type_synonym addr = "64 word"

text \<open>
  \<open>stack_info\<close> as StackTrace.cpp uses it: \<open>std::string\<close> fields, two addresses and
  a line number, which the file prints with \<open>%i\<close> and reads with \<open>atoi\<close>: an
  \<open>int\<close>. The field \<open>function\<close> is named \<open>function_name\<close> here.
\<close>

record stack_info =
  address :: addr
  address2 :: addr
  object :: string
  function_name :: string
  filename :: string
  line :: "32 word"

record global_symbols_struct =
  address :: "addr list"
  type :: "char list"
  obj :: "string list"
  error :: int


section \<open>findfirst\<close>

text \<open>
  The loop of \<open>findfirst\<close>. Indices are \<open>size_t\<close>; they are natural numbers
  here. \<open>upper - lower\<close> differs from the C++ value only when \<open>upper < lower\<close>, where
  both are different from 1, and \<open>upper + lower\<close> does not wrap for indices of a
  vector, which are below \<open>2 ^ 63\<close>. A loop that does not end, or that reads \<open>X\<close>
  out of range, has no result (\<open>None\<close>).
\<close>

partial_function (option) findfirst_loop ::
    "'a::linorder list \<Rightarrow> 'a \<Rightarrow> nat \<Rightarrow> nat \<Rightarrow> nat option" where
  "findfirst_loop X Y lower upper =
     (if upper - lower \<noteq> 1 then
        (let v = (upper + lower) div 2 in
         if v < length X then
           (if Y \<le> X ! v then findfirst_loop X Y lower v
            else findfirst_loop X Y v upper)
         else None)
      else Some upper)"

declare findfirst_loop.simps [code]

definition findfirst :: "'a::linorder list \<Rightarrow> 'a \<Rightarrow> nat option" where
  "findfirst X Y =
     (if X = [] then Some 0
      else
        (let lower = 0; upper = length X - 1 in
         if Y \<le> X ! lower then Some lower
         else if X ! upper < Y then Some upper
         else findfirst_loop X Y lower upper))"


section \<open>C strings and the C library\<close>

definition NUL :: char where
  "NUL = CHR 0x00"

definition c_str :: "string \<Rightarrow> string" where
  "c_str s = takeWhile (\<lambda>c. c \<noteq> NUL) s"

text \<open>\<open>strchr s c\<close> for \<open>c\<close> other than NUL: the offset of the first \<open>c\<close> in the C string.\<close>

definition strchr :: "string \<Rightarrow> char \<Rightarrow> nat option" where
  "strchr s c = (if c \<in> set s then Some (length (takeWhile (\<lambda>x. x \<noteq> c) s)) else None)"

definition isspace :: "char \<Rightarrow> bool" where
  "isspace c \<longleftrightarrow> c \<in> {CHR '' '', CHR 0x09, CHR 0x0A, CHR 0x0B, CHR 0x0C, CHR 0x0D}"

definition digit_value :: "char \<Rightarrow> nat option" where
  "digit_value c =
     (let n = (of_char c :: nat) in
      if 48 \<le> n \<and> n \<le> 57 then Some (n - 48)
      else if 97 \<le> n \<and> n \<le> 122 then Some (n - 87)
      else if 65 \<le> n \<and> n \<le> 90 then Some (n - 55)
      else None)"

text \<open>The digits of base \<open>base\<close> at the start of a string, and the number they write.\<close>

fun digits_of :: "nat \<Rightarrow> string \<Rightarrow> nat list" where
  "digits_of base [] = []"
| "digits_of base (c # cs) =
     (case digit_value c of
        None \<Rightarrow> []
      | Some d \<Rightarrow> if d < base then d # digits_of base cs else [])"

definition number_of :: "nat \<Rightarrow> nat list \<Rightarrow> nat" where
  "number_of base ds = foldl (\<lambda>acc d. acc * base + d) 0 ds"

text \<open>
  \<open>strtoul (s, nullptr, 16)\<close>: white space, an optional sign, an optional \<open>0x\<close> that
  hexadecimal digits follow, then the digits. No digits give 0; a value that does not
  fit gives \<open>ULONG_MAX\<close>; a minus sign negates the value in \<open>unsigned long\<close>.
\<close>

definition strtoul16 :: "string \<Rightarrow> addr" where
  "strtoul16 s =
     (let t = dropWhile isspace s;
          neg = (t \<noteq> [] \<and> hd t = CHR ''-'');
          u = (if t \<noteq> [] \<and> (hd t = CHR ''-'' \<or> hd t = CHR ''+'') then tl t else t);
          w = (if length u \<ge> 3 \<and> u ! 0 = CHR ''0'' \<and> (u ! 1 = CHR ''x'' \<or> u ! 1 = CHR ''X'')
                  \<and> digits_of 16 (drop 2 u) \<noteq> []
               then drop 2 u else u);
          n = number_of 16 (digits_of 16 w)
      in if n \<ge> 2 ^ 64 then - 1
         else if neg then - (of_nat n) else of_nat n)"


section \<open>The symbol cache\<close>

subsection \<open>One line of the output of nm\<close>

text \<open>
  The body of the \<open>while (fgets (...))\<close> loop of \<open>getSymbols2\<close> on one buffer:
  \<open>None\<close> when the line is skipped (\<open>continue\<close>), else the address, the type and the
  name that are pushed. \<open>a\<close>, \<open>b\<close>, \<open>c\<close> and \<open>d\<close> are the pointers of the source; a
  pointer is the string it points to. After \<open>c[0] = 0\<close> the character \<open>b[0]\<close> is NUL
  when \<open>c\<close> was \<open>b\<close> itself. \<open>cut_at_newline c\<close> is \<open>c\<close> after
  \<open>d = strchr (c, '\n'); if (d) d[0] = 0\<close>.
\<close>

definition cut_at_newline :: "string \<Rightarrow> string" where
  "cut_at_newline c = (case strchr c (CHR 0x0A) of None \<Rightarrow> c | Some k \<Rightarrow> take k c)"

definition nm_line :: "string \<Rightarrow> (addr \<times> char \<times> string) option" where
  "nm_line buf0 =
     (let buf = c_str buf0 in
      if buf \<noteq> [] \<and> buf ! 0 = CHR '' '' then None
      else
        (let a = buf in
         case strchr a (CHR '' '') of
           None \<Rightarrow> None
         | Some i \<Rightarrow>
             (let b = drop (Suc i) a in
              case strchr b (CHR '' '') of
                None \<Rightarrow> None
              | Some j \<Rightarrow>
                  (let c = drop (Suc j) b;
                       c' = cut_at_newline c;
                       add = strtoul16 (take i a);
                       b0 = (if j = 0 then NUL else b ! 0)
                   in Some (add, b0, c')))))"

subsection \<open>Memory\<close>

text \<open>
  \<open>new\<close>, \<open>push_back\<close> and the construction of a \<open>std::string\<close> may allocate and
  so may throw \<open>std::bad_alloc\<close>. The environment says how many of these operations
  return before one throws: \<open>None\<close> is no limit, \<open>Some n\<close> lets \<open>n\<close> of them return.
  The count is of operations, not of calls of the allocator (a vector does not allocate
  at every \<open>push_back\<close>): every point where the source can throw is a point where some
  budget throws. \<open>alloc\<close> returns the budget that is left, or \<open>None\<close> when the
  operation throws.
\<close>

type_synonym budget = "nat option"

fun alloc :: "budget \<Rightarrow> budget option" where
  "alloc None = Some None"
| "alloc (Some 0) = None"
| "alloc (Some (Suc n)) = Some (Some n)"

subsection \<open>The loop over the lines\<close>

text \<open>
  The lines are the buffers that the successive calls of \<open>fgets\<close> return. The result is
  the table and whether an exception left the loop.
\<close>

fun nm_loop :: "string list \<Rightarrow> budget \<Rightarrow> global_symbols_struct \<Rightarrow> global_symbols_struct \<times> bool" where
  "nm_loop [] m d = (d, False)"
| "nm_loop (buf # rest) m d =
     (case nm_line buf of
        None \<Rightarrow> nm_loop rest m d
      | Some (add, b0, c) \<Rightarrow>
          (case alloc m of
             None \<Rightarrow> (d, True)
           | Some m1 \<Rightarrow>
               (let d1 = d\<lparr>address := address d @ [add]\<rparr> in
                case alloc m1 of
                  None \<Rightarrow> (d1, True)
                | Some m2 \<Rightarrow>
                    (let d2 = d1\<lparr>type := type d1 @ [b0]\<rparr> in
                     case alloc m2 of
                       None \<Rightarrow> (d2, True)
                     | Some m3 \<Rightarrow> nm_loop rest m3 (d2\<lparr>obj := obj d2 @ [c]\<rparr>)))))"

text \<open>The \<open>try\<close> block after \<open>popen\<close> succeeded: \<open>new char[0x100000]\<close>, then the loop.\<close>

definition nm_read :: "string list \<Rightarrow> budget \<Rightarrow> global_symbols_struct \<Rightarrow> global_symbols_struct \<times> bool" where
  "nm_read lines m d = (case alloc m of None \<Rightarrow> (d, True) | Some m1 \<Rightarrow> nm_loop lines m1 d)"

subsection \<open>getSymbols2 and getSymbols\<close>

text \<open>
  What a call of \<open>getSymbols2\<close> meets: the result of \<open>popen\<close> on the \<open>nm\<close> command
  (\<open>None\<close> for \<open>nullptr\<close>, else the buffers that \<open>fgets\<close> returns one after the other)
  and the memory. The command buffer \<open>cmd\<close> is only an argument of \<open>popen\<close>; the
  name of the executable is taken to fit into it.
\<close>

record nm_env =
  popen_nm :: "string list option"
  memory :: budget

text \<open>
  The static variables \<open>loaded\<close> and \<open>data\<close> of \<open>getSymbols2\<close>, the globals
  \<open>global_symbols\<close>, \<open>global_exe_name\<close> and \<open>getSymbols_mutex\<close> (held or not), and a
  counter of the calls of \<open>popen\<close>. \<open>lock\<close> returns with the mutex held: the
  function locks only while \<open>loaded\<close> is false, and the mutex is left held only after
  \<open>loaded\<close> is set.
\<close>

record symbols_state =
  loaded :: bool
  data :: global_symbols_struct
  global_symbols :: global_symbols_struct
  global_exe_name :: string
  getSymbols_mutex :: bool
  popen_calls :: nat

definition getSymbols2 ::
    "'x build_scheme \<Rightarrow> nm_env \<Rightarrow> symbols_state \<Rightarrow> global_symbols_struct \<times> symbols_state" where
  "getSymbols2 b env s =
     (if \<not> loaded s then
        (let s1 = s\<lparr>getSymbols_mutex := True\<rparr> in
         if \<not> loaded s1 then
           (let s2 = s1\<lparr>loaded := True\<rparr> in
            if USE_NM b then
              (let s3 = s2\<lparr>popen_calls := popen_calls s2 + 1\<rparr> in
               case popen_nm env of
                 None \<Rightarrow>
                   (let s4 = s3\<lparr>data := (data s3)\<lparr>error := - 2\<rparr>\<rparr> in (data s4, s4))
               | Some lines \<Rightarrow>
                   (case nm_read lines (memory env) (data s3) of
                      (d, thrown) \<Rightarrow>
                        (let d1 = (if thrown then d\<lparr>error := - 3\<rparr> else d);
                             d2 = d1\<lparr>error := 0\<rparr>;
                             s4 = s3\<lparr>data := d2, getSymbols_mutex := False\<rparr>
                         in (data s4, s4))))
            else
              (let s3 = s2\<lparr>data := (data s2)\<lparr>error := - 1\<rparr>, getSymbols_mutex := False\<rparr>
               in (data s3, s3)))
         else
           (let s2 = s1\<lparr>getSymbols_mutex := False\<rparr> in (data s2, s2)))
      else (data s, s))"




subsection \<open>getDataFromGlobalSymbols\<close>

text \<open>
  What is not a value of the source: a loop that does not return, a read outside a
  vector or a buffer, and a write past the end of a buffer.
\<close>

datatype fault = NoResult | OutOfBounds | BufferOverflow

text \<open>
  The function searches the global \<open>global_symbols\<close>, as the source does, not the
  table that \<open>getSymbols2\<close> returned. No function of StackTrace.cpp writes
  \<open>global_symbols\<close>; the variable has external linkage.
\<close>

definition getDataFromGlobalSymbols ::
    "'x build_scheme \<Rightarrow> nm_env \<Rightarrow> stack_info \<Rightarrow> symbols_state \<Rightarrow> (fault + stack_info) \<times> symbols_state" where
  "getDataFromGlobalSymbols b env info s =
     (case getSymbols2 b env s of
        (d, s1) \<Rightarrow>
          if error d = 0 then
            (case findfirst (address (global_symbols s1)) (stack_info.address info) of
               None \<Rightarrow> (Inl NoResult, s1)
             | Some index \<Rightarrow>
                 if index > 0 then
                   (if index - 1 < length (obj (global_symbols s1))
                    then (Inr (info\<lparr>object := obj (global_symbols s1) ! (index - 1)\<rparr>), s1)
                    else (Inl OutOfBounds, s1))
                 else (Inr (info\<lparr>object := global_exe_name s1\<rparr>), s1))
          else (Inr info, s1))"


subsection \<open>White-space-separated fields\<close>




section \<open>The resolver\<close>

subsection \<open>The C library: printing and reading\<close>






text \<open>
  \<open>fgets (buf, n, f)\<close> on the bytes that are left in the stream: nothing at the end of
  the stream, else at most \<open>n - 1\<close> bytes, up to and with the first newline, and the
  bytes that stay in the stream.
\<close>

definition fgets :: "nat \<Rightarrow> string \<Rightarrow> (string \<times> string) option" where
  "fgets n stream =
     (if stream = [] \<or> n \<le> 1 then None
      else
        (let w = take (n - 1) stream;
             pre = takeWhile (\<lambda>c. c \<noteq> CHR 0x0A) w;
             chunk = (if length pre < length w then pre @ [CHR 0x0A] else pre)
         in Some (chunk, drop (length chunk) stream)))"


subsection \<open>getFileAndLine\<close>






subsection \<open>getStackInfo\<close>


text \<open>
  Modelled from the spec: the constructor \<open>stack_info ()\<close>, which StackTrace.cpp
  calls and does not define. A fresh frame has no address, no strings and line 0
  (\<open>line\<close>: 0 meaning unknown; \<open>object\<close>, \<open>function\<close>, \<open>filename\<close>: empty when
  unknown).
\<close>

definition stack_info_init :: stack_info where
  "stack_info_init =
     \<lparr>stack_info.address = 0, address2 = 0, object = [], function_name = [], filename = [],
      line = 0\<rparr>"


text \<open>The second line that \<open>getFileAndLine\<close> reads from what \<open>addr2line\<close> prints.\<close>

definition second_line :: "string \<Rightarrow> string" where
  "second_line f =
     (case fgets 4095 f of
        None \<Rightarrow> (case fgets 4095 f of None \<Rightarrow> [] | Some (l, _) \<Rightarrow> l)
      | Some (_, r) \<Rightarrow> (case fgets 4095 r of None \<Rightarrow> [] | Some (l, _) \<Rightarrow> l))"


section \<open>Utilities::terminate\<close>

text \<open>
  Utilities.cpp. \<open>USE_GCOV\<close> and \<open>USE_MPI\<close> (or \<open>HAVE_MPI\<close>) are preprocessor
  symbols. The static variables are \<open>abort_throwException\<close>, \<open>force_exit\<close> and
  \<open>terminate_mutex\<close> (held or not). \<open>terminate_mutex.lock ()\<close> takes the mutex
  when it is free. While the mutex is held the call waits in \<open>lock\<close> and does
  nothing else; once the mutex is free it goes on as an entry with the mutex free does.
\<close>

record terminate_build =
  USE_GCOV :: bool
  USE_MPI :: bool

record terminate_state =
  abort_throwException :: bool
  force_exit :: int
  terminate_mutex :: bool

text \<open>
  What \<open>terminate\<close> does to the world, in order. \<open>Blocked\<close> is the wait in
  \<open>lock\<close> on a mutex that is held. \<open>clearErrorHandler\<close>,
  \<open>clearMPIErrorHandler\<close>, \<open>__gcov_dump\<close>, \<open>MPI_Abort\<close> and \<open>std::abort\<close> are
  defined outside Utilities.cpp: each is an event, and none of them is taken to write
  to the error stream. \<open>Perr s\<close> is \<open>perr << s\<close>, the only way the function itself
  writes to the error stream.
\<close>

datatype event =
    Lock | Blocked | Unlock | ClearErrorHandler | GcovDump | Perr string | PerrFlush
  | ClearMPIErrorHandler | MPI_Abort | StdAbort

text \<open>
  What MPI answers: the values that \<open>MPI_Initialized\<close> and \<open>MPI_Finalized\<close> store,
  and whether \<open>MPI_Abort\<close> returns to its caller.
\<close>

record mpi_env =
  initialized :: int
  finalized :: int
  MPI_Abort_returns :: bool

definition callAbort :: "terminate_build \<Rightarrow> terminate_state \<Rightarrow> event list \<times> terminate_state" where
  "callAbort b s =
     ((if USE_GCOV b then [GcovDump] else []) @ [Unlock, StdAbort],
      s\<lparr>terminate_mutex := False\<rparr>)"

text \<open>\<open>what\<close> is the string that \<open>err.what ()\<close> returns.\<close>

definition terminate ::
    "terminate_build \<Rightarrow> mpi_env \<Rightarrow> string \<Rightarrow> terminate_state \<Rightarrow> event list \<times> terminate_state" where
  "terminate b mpi what s =
     (if terminate_mutex s then ([Blocked], s)
      else
        (let s1 = s\<lparr>terminate_mutex := True\<rparr>;
             start = [Lock, ClearErrorHandler]
         in if force_exit s1 > 1 then
              (case callAbort b s1 of (es, s2) \<Rightarrow> (start @ es, s2))
            else if \<not> abort_throwException s1 then
              (let s2 = s1\<lparr>force_exit := 2\<rparr>;
                   printed = start @ [Perr what]
               in if USE_MPI b \<and> initialized mpi \<noteq> 0 \<and> finalized mpi = 0 then
                    (if MPI_Abort_returns mpi then
                       (case callAbort b s2 of
                          (es, s3) \<Rightarrow> (printed @ [ClearMPIErrorHandler, MPI_Abort] @ es, s3))
                     else (printed @ [ClearMPIErrorHandler, MPI_Abort], s2))
                  else
                    (case callAbort b s2 of (es, s3) \<Rightarrow> (printed @ es, s3)))
            else
              (case callAbort b s1 of
                 (es, s2) \<Rightarrow> (start @ [Perr what, PerrFlush] @ es, s2))))"

text \<open>What a trace writes to the error stream.\<close>

fun perr_output :: "event list \<Rightarrow> string" where
  "perr_output [] = []"
| "perr_output (Perr s # es) = s @ perr_output es"
| "perr_output (e # es) = perr_output es"


section \<open>GetModuleListTH32\<close>

text \<open>
  What Windows answers. A library that \<open>LoadLibrary\<close> finds says which names
  \<open>GetProcAddress\<close> finds in it, and what its \<open>CreateToolhelp32Snapshot\<close> returns for
  a process: \<open>None\<close> for the invalid handle, else the modules that its
  \<open>Module32First\<close> and \<open>Module32Next\<close> walk through.
\<close>

record 'm dll =
  exports :: "string \<Rightarrow> bool"
  snapshot :: "nat \<Rightarrow> 'm list option"

datatype 'm th32_event =
    LoadLibrary string | FreeLibrary string | LoadModule 'm | CloseHandle

definition dllname :: "string list" where
  "dllname = [''kernel32.dll'', ''tlhelp32.dll'']"

text \<open>
  The \<open>for\<close> loop over \<open>dllname\<close>: the library that \<open>hToolhelp\<close> holds after the
  loop (\<open>None\<close> for \<open>NULL\<close>), and the calls of \<open>LoadLibrary\<close> and \<open>FreeLibrary\<close>.
\<close>

fun find_toolhelp ::
    "(string \<Rightarrow> 'm dll option) \<Rightarrow> string list \<Rightarrow> (string \<times> 'm dll) option \<times> 'm th32_event list" where
  "find_toolhelp load [] = (None, [])"
| "find_toolhelp load (name # names) =
     (case load name of
        None \<Rightarrow>
          (case find_toolhelp load names of (r, es) \<Rightarrow> (r, LoadLibrary name # es))
      | Some hToolhelp \<Rightarrow>
          if exports hToolhelp ''CreateToolhelp32Snapshot'' \<and> exports hToolhelp ''Module32First''
              \<and> exports hToolhelp ''Module32Next''
          then (Some (name, hToolhelp), [LoadLibrary name])
          else
            (case find_toolhelp load names of
               (r, es) \<Rightarrow> (r, LoadLibrary name # FreeLibrary name # es)))"

text \<open>
  The result (\<open>TRUE\<close> or \<open>FALSE\<close>) and the calls, in order. The function does not
  use what \<open>LoadModule\<close> returns: the call is an event.
\<close>

definition GetModuleListTH32 ::
    "(string \<Rightarrow> 'm dll option) \<Rightarrow> nat \<Rightarrow> bool \<times> 'm th32_event list" where
  "GetModuleListTH32 load pid =
     (case find_toolhelp load dllname of
        (None, es) \<Rightarrow> (False, es)
      | (Some (name, hToolhelp), es) \<Rightarrow>
          (case snapshot hToolhelp pid of
             None \<Rightarrow> (False, es @ [FreeLibrary name])
           | Some modules \<Rightarrow>
               (\<not> (int (length modules) \<le> 0),
                es @ map LoadModule modules @ [CloseHandle, FreeLibrary name])))"

text \<open>A library yields the three entry points when it is found and exports the three names.\<close>

definition yields_all :: "'m dll option \<Rightarrow> bool" where
  "yields_all l =
     (case l of
        None \<Rightarrow> False
      | Some h \<Rightarrow> exports h ''CreateToolhelp32Snapshot'' \<and> exports h ''Module32First''
                    \<and> exports h ''Module32Next'')"


section \<open>pack and unpack\<close>

text \<open>
  Modelled from the spec: \<open>stack_info::pack\<close> and \<open>stack_info::unpack\<close>, which
  StackTrace.h declares and StackTrace.cpp does not define. The layout is the one the
  specification gives: \<open>address\<close> in 8 bytes, \<open>address2\<close> in 8 bytes, \<open>line\<close> in 4
  bytes and clamped to 255, all little-endian, then three length-prefixed byte arrays
  for \<open>object\<close>, \<open>filename\<close> and \<open>function\<close>. The specification does not give the
  width of a length prefix: it is the parameter \<open>w\<close>, in bytes, little-endian.
  \<open>unpack\<close> returns the frame and the bytes after it, or \<open>None\<close> when the bytes end
  too early.
\<close>

fun le_bytes :: "nat \<Rightarrow> nat \<Rightarrow> string" where
  "le_bytes 0 n = []"
| "le_bytes (Suc k) n = char_of (n mod 256) # le_bytes k (n div 256)"

fun le_value :: "string \<Rightarrow> nat" where
  "le_value [] = 0"
| "le_value (c # cs) = of_char c + 256 * le_value cs"

definition pack_array :: "nat \<Rightarrow> string \<Rightarrow> string" where
  "pack_array w s = le_bytes w (length s) @ s"

definition unpack_array :: "nat \<Rightarrow> string \<Rightarrow> (string \<times> string) option" where
  "unpack_array w bs =
     (if length bs < w then None
      else
        (let n = le_value (take w bs); r = drop w bs in
         if length r < n then None else Some (take n r, drop n r)))"

definition pack :: "nat \<Rightarrow> stack_info \<Rightarrow> string" where
  "pack w f =
     le_bytes 8 (unat (stack_info.address f)) @ le_bytes 8 (unat (address2 f))
       @ le_bytes 4 (min (unat (line f)) 255)
       @ pack_array w (object f) @ pack_array w (filename f) @ pack_array w (function_name f)"

definition unpack :: "nat \<Rightarrow> string \<Rightarrow> (stack_info \<times> string) option" where
  "unpack w bs =
     (if length bs < 20 then None
      else
        (case unpack_array w (drop 20 bs) of
           None \<Rightarrow> None
         | Some (ob, r1) \<Rightarrow>
             (case unpack_array w r1 of
                None \<Rightarrow> None
              | Some (fi, r2) \<Rightarrow>
                  (case unpack_array w r2 of
                     None \<Rightarrow> None
                   | Some (fu, r3) \<Rightarrow>
                       Some (\<lparr>stack_info.address = of_nat (le_value (take 8 bs)),
                              address2 = of_nat (le_value (take 8 (drop 8 bs))),
                              object = ob, function_name = fu, filename = fi,
                              line = of_nat (le_value (take 4 (drop 16 bs)))\<rparr>, r3)))))"


section \<open>Concrete inputs\<close>

text \<open>\<open>frame a\<close> is the frame of \<open>getStackInfo\<close> after \<open>info.address = address\<close>.\<close>

definition frame :: "addr \<Rightarrow> stack_info" where
  "frame a = stack_info_init\<lparr>stack_info.address := a\<rparr>"

definition linux_build :: build where
  "linux_build = \<lparr>os = Linux, GNU_SOURCE = True, USE_ABI = True\<rparr>"

definition no_nm :: nm_env where
  "no_nm = \<lparr>popen_nm = None, memory = None\<rparr>"

text \<open>The state of a program that has not called \<open>getSymbols2\<close> yet.\<close>

definition start_state :: symbols_state where
  "start_state =
     \<lparr>loaded = False,
      data = \<lparr>address = [], type = [], obj = [], error = 0\<rparr>,
      global_symbols = \<lparr>address = [], type = [], obj = [], error = 0\<rparr>,
      global_exe_name = ''/bin/app'', getSymbols_mutex = False, popen_calls = 0\<rparr>"

text \<open>
  Four lines as \<open>nm -n --demangle\<close> prints them: a defined symbol, an undefined one
  (the line starts with spaces), a second defined symbol, and a line with one field.
\<close>

definition nm_output :: "string list" where
  "nm_output =
     [''0000000000401000 T main'' @ [CHR 0x0A],
      ''                 U printf'' @ [CHR 0x0A],
      ''0000000000401100 t helper(int)'' @ [CHR 0x0A],
      ''junk'' @ [CHR 0x0A]]"

definition nm_ok :: nm_env where
  "nm_ok = \<lparr>popen_nm = Some nm_output, memory = None\<rparr>"

text \<open>
  An output in which two symbols have the address 0x401100; the line of
  \<open>helper(int)\<close> comes first.
\<close>

definition nm_output_alias :: "string list" where
  "nm_output_alias =
     [''0000000000401000 T main'' @ [CHR 0x0A],
      ''0000000000401100 T helper(int)'' @ [CHR 0x0A],
      ''0000000000401100 W helper_alias'' @ [CHR 0x0A],
      ''0000000000401200 T tail'' @ [CHR 0x0A]]"

definition nm_alias :: nm_env where
  "nm_alias = \<lparr>popen_nm = Some nm_output_alias, memory = None\<rparr>"


text \<open>
  The state of \<open>Utilities::terminate\<close> when the program starts, a build with MPI, and
  an MPI that is active and whose \<open>MPI_Abort\<close> does not return.
\<close>

definition terminate_start :: terminate_state where
  "terminate_start = \<lparr>abort_throwException = False, force_exit = 0, terminate_mutex = False\<rparr>"

definition mpi_build :: terminate_build where
  "mpi_build = \<lparr>USE_GCOV = False, USE_MPI = True\<rparr>"

definition mpi_active :: mpi_env where
  "mpi_active = \<lparr>initialized = 1, finalized = 0, MPI_Abort_returns = False\<rparr>"

text \<open>
  A termination in progress: after a first entry that went through \<open>callAbort\<close> the
  mutex is free; after a first entry that stays in \<open>MPI_Abort\<close> it is held.
\<close>

definition terminating :: terminate_state where
  "terminating = \<lparr>abort_throwException = False, force_exit = 2, terminate_mutex = False\<rparr>"

definition in_MPI_Abort :: terminate_state where
  "in_MPI_Abort = \<lparr>abort_throwException = False, force_exit = 2, terminate_mutex = True\<rparr>"

text \<open>
  A system whose \<open>kernel32.dll\<close> has only \<open>CreateToolhelp32Snapshot\<close> and whose
  \<open>tlhelp32.dll\<close> has the three entry points and sees two modules.
\<close>

definition partial_kernel32 :: "string dll" where
  "partial_kernel32 =
     \<lparr>exports = (\<lambda>n. n = ''CreateToolhelp32Snapshot''), snapshot = (\<lambda>pid. Some [''app.exe''])\<rparr>"

definition full_tlhelp32 :: "string dll" where
  "full_tlhelp32 =
     \<lparr>exports = (\<lambda>n. n \<in> {''CreateToolhelp32Snapshot'', ''Module32First'', ''Module32Next''}),
      snapshot = (\<lambda>pid. Some [''app.exe'', ''ntdll.dll''])\<rparr>"

definition old_windows :: "string \<Rightarrow> string dll option" where
  "old_windows name =
     (if name = ''kernel32.dll'' then Some partial_kernel32
      else if name = ''tlhelp32.dll'' then Some full_tlhelp32
      else None)"

text \<open>A frame of \<open>main\<close> at line 42.\<close>

definition main_frame :: stack_info where
  "main_frame =
     \<lparr>stack_info.address = 0x401136, address2 = 0x1136, object = ''/bin/app'',
      function_name = ''main'', filename = ''main.cpp'', line = 42\<rparr>"



section \<open>Properties of findfirst\<close>

text \<open>
  Between a lower index whose entry is below \<open>Y\<close> and an upper index whose entry is not,
  the loop returns: an index whose entry is not below \<open>Y\<close> and whose predecessor is.
  The vector need not be sorted.
\<close>

lemma findfirst_loop_inv:
  assumes "lower < upper" "upper < length X" "X ! lower < Y" "Y \<le> X ! upper"
  shows "\<exists>i. findfirst_loop X Y lower upper = Some i \<and> lower < i \<and> i \<le> upper
              \<and> X ! (i - 1) < Y \<and> Y \<le> X ! i"
  using assms
proof (induction "upper - lower" arbitrary: lower upper rule: less_induct)
  case less
  show ?case
  proof (cases "upper - lower = 1")
    case True
    then have "upper - 1 = lower" by simp
    with True less.prems show ?thesis
      by (subst findfirst_loop.simps) simp
  next
    case False
    define v where "v = (upper + lower) div 2"
    have v: "lower < v" "v < upper" "v < length X"
      using False less.prems(1,2) by (auto simp: v_def)
    show ?thesis
    proof (cases "Y \<le> X ! v")
      case True
      have "v - lower < upper - lower" using v by simp
      from less.hyps [OF this v(1) v(3) less.prems(3) True]
      obtain i where "findfirst_loop X Y lower v = Some i" "lower < i" "i \<le> v"
        "X ! (i - 1) < Y" "Y \<le> X ! i" by blast
      with False True v show ?thesis
        by (subst findfirst_loop.simps) (auto simp: v_def Let_def)
    next
      case nle: False
      then have lt: "X ! v < Y" by simp
      have "upper - v < upper - lower" using v by simp
      from less.hyps [OF this v(2) less.prems(2) lt less.prems(4)]
      obtain i where "findfirst_loop X Y v upper = Some i" "v < i" "i \<le> upper"
        "X ! (i - 1) < Y" "Y \<le> X ! i" by blast
      with False nle v show ?thesis
        by (subst findfirst_loop.simps) (auto simp: v_def Let_def)
    qed
  qed
qed

text \<open>The three ways out of findfirst on a vector that is not empty.\<close>

lemma findfirst_cases:
  assumes "X \<noteq> []"
  shows "(Y \<le> X ! 0 \<and> findfirst X Y = Some 0)
       \<or> (X ! 0 < Y \<and> X ! (length X - 1) < Y \<and> findfirst X Y = Some (length X - 1))
       \<or> (X ! 0 < Y \<and> Y \<le> X ! (length X - 1) \<and>
            (\<exists>i. findfirst X Y = Some i \<and> 0 < i \<and> i < length X \<and> X ! (i - 1) < Y \<and> Y \<le> X ! i))"
proof (cases "Y \<le> X ! 0")
  case True
  with assms show ?thesis by (simp add: findfirst_def)
next
  case False
  then have lo: "X ! 0 < Y" by simp
  show ?thesis
  proof (cases "X ! (length X - 1) < Y")
    case True
    with assms False lo show ?thesis by (simp add: findfirst_def)
  next
    case up: False
    then have hi: "Y \<le> X ! (length X - 1)" by simp
    have "0 < length X - 1"
    proof (rule ccontr)
      assume "\<not> 0 < length X - 1"
      then have "length X - 1 = 0" by simp
      with lo hi show False by simp
    qed
    moreover have "length X - 1 < length X" using assms by simp
    ultimately obtain i where "findfirst_loop X Y 0 (length X - 1) = Some i" "0 < i"
      "i \<le> length X - 1" "X ! (i - 1) < Y" "Y \<le> X ! i"
      using findfirst_loop_inv [OF _ _ lo hi] by blast
    with assms False up lo hi show ?thesis
      by (auto simp: findfirst_def)
  qed
qed

lemma findfirst_bound:
  "X \<noteq> [] \<Longrightarrow> \<exists>i. findfirst X Y = Some i \<and> i < length X"
  using findfirst_cases [of X Y] by (cases X) auto

lemma findfirst_Nil: "findfirst [] Y = Some 0"
  by (simp add: findfirst_def)

text \<open>
  On an ascending vector, for a value above the first entry and not above the last one,
  the index before the one returned is the greatest index whose entry is below the
  value.
\<close>

lemma findfirst_sorted:
  assumes "sorted X" and "X \<noteq> []" and "X ! 0 < Y" and "Y \<le> last X"
  shows "\<exists>i. findfirst X Y = Some i \<and> 0 < i \<and> i < length X \<and> X ! (i - 1) < Y \<and>
             (\<forall>j<length X. X ! j < Y \<longrightarrow> j \<le> i - 1)"
proof -
  have hi: "Y \<le> X ! (length X - 1)" using assms(2,4) by (simp add: last_conv_nth)
  from findfirst_cases [OF assms(2), of Y] assms(3) hi
  obtain i where i: "findfirst X Y = Some i" "0 < i" "i < length X" "X ! (i - 1) < Y" "Y \<le> X ! i"
    by auto
  have "\<forall>j<length X. X ! j < Y \<longrightarrow> j \<le> i - 1"
  proof (intro allI impI)
    fix j assume j: "j < length X" "X ! j < Y"
    show "j \<le> i - 1"
    proof (rule ccontr)
      assume "\<not> j \<le> i - 1"
      then have "i \<le> j" using i(2) by simp
      then have "X ! i \<le> X ! j" using assms(1) j(1) by (simp add: sorted_nth_mono)
      with i(5) j(2) show False by simp
    qed
  qed
  with i show ?thesis by blast
qed

section \<open>The lookup in the symbol table\<close>

lemma getSymbols2_loaded: "loaded s \<Longrightarrow> getSymbols2 b env s = (data s, s)"
  by (simp add: getSymbols2_def)

text \<open>No call writes \<open>global_symbols\<close> or \<open>global_exe_name\<close>.\<close>

lemma getSymbols2_global_symbols:
  "global_symbols (snd (getSymbols2 b env s)) = global_symbols s"
  by (simp add: getSymbols2_def Let_def split: option.splits prod.splits)

lemma getSymbols2_global_exe_name:
  "global_exe_name (snd (getSymbols2 b env s)) = global_exe_name s"
  by (simp add: getSymbols2_def Let_def split: option.splits prod.splits)

lemma getDataFromGlobalSymbols_global_symbols:
  "global_symbols (snd (getDataFromGlobalSymbols b env info s)) = global_symbols s"
proof -
  obtain d s1 where g: "getSymbols2 b env s = (d, s1)" by (cases "getSymbols2 b env s")
  have "global_symbols s1 = global_symbols s"
    using getSymbols2_global_symbols [of b env s] g by simp
  with g show ?thesis
    by (simp add: getDataFromGlobalSymbols_def split: option.splits)
qed

text \<open>
  While \<open>global_symbols\<close> is empty, as it is when the program starts, the lookup finds
  no record, whatever \<open>getSymbols2\<close> has loaded.
\<close>

lemma lookup_empty_global_symbols:
  assumes "address (global_symbols s) = []"
  shows "fst (getDataFromGlobalSymbols b env info s) = Inr info \<or>
         fst (getDataFromGlobalSymbols b env info s) = Inr (info\<lparr>object := global_exe_name s\<rparr>)"
proof -
  obtain d s1 where g: "getSymbols2 b env s = (d, s1)" by (cases "getSymbols2 b env s")
  have "global_symbols s1 = global_symbols s" "global_exe_name s1 = global_exe_name s"
    using getSymbols2_global_symbols [of b env s] getSymbols2_global_exe_name [of b env s] g
    by simp_all
  with g assms show ?thesis
    by (simp add: getDataFromGlobalSymbols_def findfirst_def)
qed

text \<open>
  Claim C10. On a vector that is not empty \<open>findfirst\<close> returns, and the index is less
  than the size; on the empty vector it returns 0. When the vectors \<open>address\<close> and
  \<open>obj\<close> of \<open>global_symbols\<close> have the same length, \<open>getDataFromGlobalSymbols\<close>
  returns a frame: the search returns and the read at the index minus one is inside
  \<open>obj\<close>.
\<close>

theorem findfirst_in_bounds:
  "(X \<noteq> [] \<longrightarrow> (\<exists>i. findfirst X Y = Some i \<and> i < length X)) \<and>
   findfirst [] Y = Some 0 \<and>
   (length (obj (global_symbols s)) = length (address (global_symbols s)) \<longrightarrow>
      (\<exists>r. fst (getDataFromGlobalSymbols b env info s) = Inr r))"
proof (intro conjI impI)
  assume "X \<noteq> []"
  then show "\<exists>i. findfirst X Y = Some i \<and> i < length X" by (rule findfirst_bound)
next
  show "findfirst [] Y = Some 0" by (rule findfirst_Nil)
next
  assume len: "length (obj (global_symbols s)) = length (address (global_symbols s))"
  obtain d s1 where g: "getSymbols2 b env s = (d, s1)" by (cases "getSymbols2 b env s")
  have gs: "global_symbols s1 = global_symbols s"
    using getSymbols2_global_symbols [of b env s] g by simp
  define Z where "Z = address (global_symbols s)"
  have "Z = [] \<or> Z \<noteq> []" by simp
  then have "\<exists>i. findfirst Z (stack_info.address info) = Some i \<and> (i = 0 \<or> i - 1 < length Z)"
  proof
    assume "Z = []" then show ?thesis by (simp add: findfirst_Nil)
  next
    assume "Z \<noteq> []"
    from findfirst_bound [OF this, of "stack_info.address info"] show ?thesis by auto
  qed
  then obtain i where i: "findfirst Z (stack_info.address info) = Some i" "i = 0 \<or> i - 1 < length Z"
    by blast
  show "\<exists>r. fst (getDataFromGlobalSymbols b env info s) = Inr r"
    using g gs i len by (auto simp: getDataFromGlobalSymbols_def Z_def)
qed

text \<open>
  An instance: a vector of four addresses, and the lookup in the state in which the
  program starts.
\<close>

theorem findfirst_in_bounds_witness:
  "[0x10, 0x20, 0x20, 0x30 :: addr] \<noteq> [] \<and>
   length (obj (global_symbols start_state)) = length (address (global_symbols start_state)) \<and>
   (\<exists>i. findfirst [0x10, 0x20, 0x20, 0x30 :: addr] 0x25 = Some i \<and>
        i < length [0x10, 0x20, 0x20, 0x30 :: addr]) \<and>
   (\<exists>r. fst (getDataFromGlobalSymbols linux_build nm_ok (frame 0x401050) start_state) = Inr r)"
proof -
  have h1: "[0x10, 0x20, 0x20, 0x30 :: addr] \<noteq> []"
    and h2: "length (obj (global_symbols start_state)) =
      length (address (global_symbols start_state))"
    by (simp_all add: start_state_def)
  show ?thesis
    using findfirst_in_bounds [where X = "[0x10, 0x20, 0x20, 0x30 :: addr]" and Y = "0x25"
      and s = start_state and info = "frame 0x401050" and b = linux_build and env = nm_ok]
      h1 h2
    by blast
qed


section \<open>Reading the output of nm\<close>

lemma strchr_None: "strchr s c = None \<longleftrightarrow> c \<notin> set s"
  by (simp add: strchr_def)







text \<open>With no limit on memory the loop appends the records of the accepted lines, in order.\<close>

lemma nm_loop_unlimited:
  "nm_loop lines None d =
     (d\<lparr>address := address d @ map fst (List.map_filter nm_line lines),
        type := type d @ map (fst \<circ> snd) (List.map_filter nm_line lines),
        obj := obj d @ map (snd \<circ> snd) (List.map_filter nm_line lines)\<rparr>, False)"
proof (induction lines arbitrary: d)
  case Nil
  show ?case by simp
next
  case (Cons buf rest)
  show ?case
  proof (cases "nm_line buf")
    case None
    then show ?thesis by (simp add: Cons.IH)
  next
    case (Some r)
    obtain add b0 c where r: "r = (add, b0, c)" by (cases r)
    with Some show ?thesis by (simp add: Cons.IH)
  qed
qed

lemma getSymbols2_first:
  assumes "\<not> loaded s" "USE_NM b"
  shows "getSymbols2 b env s =
     (case popen_nm env of
        None \<Rightarrow>
          ((data s)\<lparr>error := - 2\<rparr>,
           s\<lparr>getSymbols_mutex := True, loaded := True, popen_calls := popen_calls s + 1,
             data := (data s)\<lparr>error := - 2\<rparr>\<rparr>)
      | Some lines \<Rightarrow>
          ((fst (nm_read lines (memory env) (data s)))\<lparr>error := 0\<rparr>,
           s\<lparr>getSymbols_mutex := True, loaded := True, popen_calls := popen_calls s + 1,
             data := (fst (nm_read lines (memory env) (data s)))\<lparr>error := 0\<rparr>,
             getSymbols_mutex := False\<rparr>))"
  using assms by (simp add: getSymbols2_def Let_def split: option.splits prod.splits)


lemmas c_defs = nm_line_def c_str_def NUL_def strchr_def cut_at_newline_def strtoul16_def
  isspace_def digit_value_def number_of_def

lemma nm_output_records:
  "List.map_filter nm_line nm_output =
     [(0x401000, CHR ''T'', ''main''), (0x401100, CHR ''t'', ''helper(int)'')]"
  by (simp add: nm_output_def c_defs)




section \<open>Loading once\<close>








section \<open>The lookup after a load\<close>

lemma nm_output_alias_records:
  "List.map_filter nm_line nm_output_alias =
     [(0x401000, CHR ''T'', ''main''), (0x401100, CHR ''T'', ''helper(int)''),
      (0x401100, CHR ''W'', ''helper_alias''), (0x401200, CHR ''T'', ''tail'')]"
  by (simp add: nm_output_alias_def c_defs)

text \<open>
  The first call of \<open>getSymbols2\<close> in the state in which the program starts, for the
  two outputs: the table goes to \<open>data\<close>, and \<open>global_symbols\<close> stays empty.
\<close>

lemma getSymbols2_start_nm_ok:
  "getSymbols2 linux_build nm_ok start_state =
     (\<lparr>address = [0x401000, 0x401100], type = ''Tt'', obj = [''main'', ''helper(int)''],
       error = 0\<rparr>,
      start_state\<lparr>loaded := True, popen_calls := 1,
        data := \<lparr>address = [0x401000, 0x401100], type = ''Tt'',
                 obj = [''main'', ''helper(int)''], error = 0\<rparr>\<rparr>)"
proof -
  have "\<not> loaded start_state" "USE_NM linux_build"
    by (simp_all add: start_state_def linux_build_def USE_NM_def)
  from getSymbols2_first [OF this, of nm_ok] show ?thesis
    by (simp add: nm_ok_def nm_read_def nm_loop_unlimited nm_output_records start_state_def)
qed

lemma getSymbols2_start_nm_alias:
  "getSymbols2 linux_build nm_alias start_state =
     (\<lparr>address = [0x401000, 0x401100, 0x401100, 0x401200], type = ''TTWT'',
       obj = [''main'', ''helper(int)'', ''helper_alias'', ''tail''], error = 0\<rparr>,
      start_state\<lparr>loaded := True, popen_calls := 1,
        data := \<lparr>address = [0x401000, 0x401100, 0x401100, 0x401200], type = ''TTWT'',
                 obj = [''main'', ''helper(int)'', ''helper_alias'', ''tail''], error = 0\<rparr>\<rparr>)"
proof -
  have "\<not> loaded start_state" "USE_NM linux_build"
    by (simp_all add: start_state_def linux_build_def USE_NM_def)
  from getSymbols2_first [OF this, of nm_alias] show ?thesis
    by (simp add: nm_alias_def nm_read_def nm_loop_unlimited nm_output_alias_records
        start_state_def)
qed

text \<open>
  Claim C1, at a failing input. The program starts, \<open>nm\<close> prints \<open>main\<close> at 0x401000
  and \<open>helper(int)\<close> at 0x401100, and the address 0x401050 is looked up. The load
  succeeds and \<open>data\<close> holds the two records; the lookup searches \<open>global_symbols\<close>,
  which is empty, and stores the name of the executable: no record, where the record
  before 0x401050 is \<open>main\<close>. A second lookup, now that the table is loaded, does the
  same.
\<close>

theorem lookup_after_load_no_record:
  "fst (getDataFromGlobalSymbols linux_build nm_ok (frame 0x401050) start_state) =
     Inr ((frame 0x401050)\<lparr>object := ''/bin/app''\<rparr>) \<and>
   data (snd (getDataFromGlobalSymbols linux_build nm_ok (frame 0x401050) start_state)) =
     \<lparr>address = [0x401000, 0x401100], type = ''Tt'', obj = [''main'', ''helper(int)''],
      error = 0\<rparr> \<and>
   (0x401000 :: addr) < 0x401050 \<and> (0x401050 :: addr) \<le> 0x401100 \<and>
   address (global_symbols
     (snd (getDataFromGlobalSymbols linux_build nm_ok (frame 0x401050) start_state))) = [] \<and>
   fst (getDataFromGlobalSymbols linux_build no_nm (frame 0x401050)
     (snd (getDataFromGlobalSymbols linux_build nm_ok (frame 0x401050) start_state))) =
     Inr ((frame 0x401050)\<lparr>object := ''/bin/app''\<rparr>)"
proof -
  define s1 where "s1 = start_state\<lparr>loaded := True, popen_calls := 1,
        data := \<lparr>address = [0x401000, 0x401100], type = ''Tt'',
                 obj = [''main'', ''helper(int)''], error = 0\<rparr>\<rparr>"
  have g: "getSymbols2 linux_build nm_ok start_state =
      (\<lparr>address = [0x401000, 0x401100], type = ''Tt'', obj = [''main'', ''helper(int)''],
        error = 0\<rparr>, s1)"
    by (simp add: getSymbols2_start_nm_ok s1_def)
  have s1: "address (global_symbols s1) = []" "global_exe_name s1 = ''/bin/app''" "loaded s1"
    "data s1 = \<lparr>address = [0x401000, 0x401100], type = ''Tt'',
                 obj = [''main'', ''helper(int)''], error = 0\<rparr>"
    by (simp_all add: s1_def start_state_def)
  have r: "getDataFromGlobalSymbols linux_build nm_ok (frame 0x401050) start_state =
      (Inr ((frame 0x401050)\<lparr>object := ''/bin/app''\<rparr>), s1)"
    by (simp add: getDataFromGlobalSymbols_def g s1 findfirst_def)
  have r2: "getDataFromGlobalSymbols linux_build no_nm (frame 0x401050) s1 =
      (Inr ((frame 0x401050)\<lparr>object := ''/bin/app''\<rparr>), s1)"
    by (simp add: getDataFromGlobalSymbols_def getSymbols2_loaded s1 findfirst_def)
  show ?thesis by (simp add: r r2 s1)
qed

text \<open>
  Claim C6, at a failing input. The program starts and \<open>nm\<close> prints two symbols at
  0x401100, \<open>helper(int)\<close> first; the address 0x401150 is looked up. \<open>data\<close> holds
  the two records at 0x401100; the lookup searches the empty \<open>global_symbols\<close> and
  stores the name of the executable: no record, where the claim names \<open>helper(int)\<close>.
\<close>

theorem lookup_duplicates_no_record:
  "fst (getDataFromGlobalSymbols linux_build nm_alias (frame 0x401150) start_state) =
     Inr ((frame 0x401150)\<lparr>object := ''/bin/app''\<rparr>) \<and>
   data (snd (getDataFromGlobalSymbols linux_build nm_alias (frame 0x401150) start_state)) =
     \<lparr>address = [0x401000, 0x401100, 0x401100, 0x401200], type = ''TTWT'',
      obj = [''main'', ''helper(int)'', ''helper_alias'', ''tail''], error = 0\<rparr> \<and>
   (0x401100 :: addr) < 0x401150 \<and> (0x401150 :: addr) \<le> 0x401200 \<and>
   address (global_symbols
     (snd (getDataFromGlobalSymbols linux_build nm_alias (frame 0x401150) start_state))) = []"
proof -
  define s1 where "s1 = start_state\<lparr>loaded := True, popen_calls := 1,
        data := \<lparr>address = [0x401000, 0x401100, 0x401100, 0x401200], type = ''TTWT'',
                 obj = [''main'', ''helper(int)'', ''helper_alias'', ''tail''], error = 0\<rparr>\<rparr>"
  have g: "getSymbols2 linux_build nm_alias start_state =
      (\<lparr>address = [0x401000, 0x401100, 0x401100, 0x401200], type = ''TTWT'',
        obj = [''main'', ''helper(int)'', ''helper_alias'', ''tail''], error = 0\<rparr>, s1)"
    by (simp add: getSymbols2_start_nm_alias s1_def)
  have s1: "address (global_symbols s1) = []" "global_exe_name s1 = ''/bin/app''"
    "data s1 = \<lparr>address = [0x401000, 0x401100, 0x401100, 0x401200], type = ''TTWT'',
                 obj = [''main'', ''helper(int)'', ''helper_alias'', ''tail''], error = 0\<rparr>"
    by (simp_all add: s1_def start_state_def)
  have r: "getDataFromGlobalSymbols linux_build nm_alias (frame 0x401150) start_state =
      (Inr ((frame 0x401150)\<lparr>object := ''/bin/app''\<rparr>), s1)"
    by (simp add: getDataFromGlobalSymbols_def g s1 findfirst_def)
  show ?thesis by (simp add: r s1)
qed


section \<open>Termination in progress\<close>

text \<open>
  Claim C3, as amended. When \<open>force_exit\<close> is above 1 at entry, \<open>terminate\<close> writes
  nothing to the error stream. When the mutex is free at entry, it takes the mutex,
  clears the error handler and goes to \<open>callAbort\<close>: it releases the mutex and calls
  \<open>std::abort\<close>, and it leaves \<open>force_exit\<close> and \<open>abort_throwException\<close> as they
  are. When the mutex is held at entry, it waits in \<open>lock\<close> and does not call
  \<open>std::abort\<close>.
\<close>

theorem terminate_in_progress:
  assumes "force_exit s > 1"
  shows "terminate b mpi what s =
           (if terminate_mutex s then ([Blocked], s)
            else ([Lock, ClearErrorHandler] @ (if USE_GCOV b then [GcovDump] else [])
                    @ [Unlock, StdAbort], s))
         \<and> perr_output (fst (terminate b mpi what s)) = []"
proof (cases "terminate_mutex s")
  case True
  then show ?thesis by (simp add: terminate_def)
next
  case False
  then have "s\<lparr>terminate_mutex := False\<rparr> = s" by simp
  with False assms show ?thesis by (simp add: terminate_def callAbort_def)
qed

text \<open>An instance with the mutex free: the second entry prints nothing and aborts.\<close>

theorem terminate_in_progress_witness:
  "force_exit terminating > 1 \<and>
   terminate mpi_build mpi_active ''abort'' terminating =
     ([Lock, ClearErrorHandler, Unlock, StdAbort], terminating) \<and>
   perr_output (fst (terminate mpi_build mpi_active ''abort'' terminating)) = []"
proof -
  have h: "force_exit terminating > 1" by (simp add: terminating_def)
  have f: "\<not> terminate_mutex terminating" "\<not> USE_GCOV mpi_build"
    by (simp_all add: terminating_def mpi_build_def)
  from terminate_in_progress [OF h, of mpi_build mpi_active "''abort''"] h f
  show ?thesis by simp
qed

text \<open>
  Claim C3 as it was stated fails: a first entry while MPI is active, whose
  \<open>MPI_Abort\<close> does not return, leaves \<open>force_exit\<close> at 2 and the mutex held; an
  entry in that state waits in \<open>lock\<close> and does not call \<open>std::abort\<close>.
\<close>

theorem terminate_blocked_counterexample:
  "terminate mpi_build mpi_active ''first'' terminate_start =
     ([Lock, ClearErrorHandler, Perr ''first'', ClearMPIErrorHandler, MPI_Abort], in_MPI_Abort) \<and>
   force_exit in_MPI_Abort = 2 \<and>
   terminate mpi_build mpi_active ''second'' in_MPI_Abort = ([Blocked], in_MPI_Abort)"
  by (simp add: terminate_def terminate_start_def mpi_build_def mpi_active_def in_MPI_Abort_def)

text \<open>
  A first entry with the mutex free and \<open>abort_throwException\<close> off sets \<open>force_exit\<close>
  to 2, so that an entry after it is one that the theorem is about.
\<close>

lemma terminate_sets_force_exit:
  assumes "\<not> terminate_mutex s" and "\<not> force_exit s > 1" and "\<not> abort_throwException s"
  shows "force_exit (snd (terminate b mpi what s)) = 2"
  using assms by (simp add: terminate_def callAbort_def Let_def)

section \<open>The choice of the toolhelp library\<close>

lemma find_toolhelp_dllname:
  "find_toolhelp load dllname =
     (if yields_all (load ''kernel32.dll'')
      then (Some (''kernel32.dll'', the (load ''kernel32.dll'')), [LoadLibrary ''kernel32.dll''])
      else if yields_all (load ''tlhelp32.dll'')
      then (Some (''tlhelp32.dll'', the (load ''tlhelp32.dll'')),
            LoadLibrary ''kernel32.dll''
              # (if load ''kernel32.dll'' = None then [] else [FreeLibrary ''kernel32.dll''])
              @ [LoadLibrary ''tlhelp32.dll''])
      else (None,
            LoadLibrary ''kernel32.dll''
              # (if load ''kernel32.dll'' = None then [] else [FreeLibrary ''kernel32.dll''])
              @ LoadLibrary ''tlhelp32.dll''
              # (if load ''tlhelp32.dll'' = None then [] else [FreeLibrary ''tlhelp32.dll''])))"
  by (simp add: dllname_def yields_all_def split: option.splits)

text \<open>
  Claim C8, as amended. \<open>GetModuleListTH32\<close> uses the first of \<open>kernel32.dll\<close> and
  \<open>tlhelp32.dll\<close> that is found and yields the three entry points, and reads the
  modules from it. When \<open>kernel32.dll\<close> is not found, or is found and yields only some
  of the three, the function frees it if it was found and tries \<open>tlhelp32.dll\<close>. When
  neither yields the three, the result is \<open>FALSE\<close>.
\<close>

theorem GetModuleListTH32_choice:
  "(yields_all (load ''kernel32.dll'') \<longrightarrow>
      GetModuleListTH32 load pid =
        (case snapshot (the (load ''kernel32.dll'')) pid of
           None \<Rightarrow> (False, [LoadLibrary ''kernel32.dll'', FreeLibrary ''kernel32.dll''])
         | Some ms \<Rightarrow>
             (ms \<noteq> [], [LoadLibrary ''kernel32.dll''] @ map LoadModule ms
                @ [CloseHandle, FreeLibrary ''kernel32.dll'']))) \<and>
   (\<not> yields_all (load ''kernel32.dll'') \<and> yields_all (load ''tlhelp32.dll'') \<longrightarrow>
      GetModuleListTH32 load pid =
        (let tried = LoadLibrary ''kernel32.dll''
               # (if load ''kernel32.dll'' = None then [] else [FreeLibrary ''kernel32.dll''])
               @ [LoadLibrary ''tlhelp32.dll'']
         in case snapshot (the (load ''tlhelp32.dll'')) pid of
              None \<Rightarrow> (False, tried @ [FreeLibrary ''tlhelp32.dll''])
            | Some ms \<Rightarrow>
                (ms \<noteq> [], tried @ map LoadModule ms @ [CloseHandle, FreeLibrary ''tlhelp32.dll'']))) \<and>
   (\<not> yields_all (load ''kernel32.dll'') \<and> \<not> yields_all (load ''tlhelp32.dll'') \<longrightarrow>
      \<not> fst (GetModuleListTH32 load pid))"
proof (intro conjI impI)
  assume k: "yields_all (load ''kernel32.dll'')"
  then obtain h where h: "load ''kernel32.dll'' = Some h"
    by (auto simp: yields_all_def split: option.splits)
  from k have "find_toolhelp load dllname = (Some (''kernel32.dll'', h), [LoadLibrary ''kernel32.dll''])"
    by (simp add: find_toolhelp_dllname h)
  then show "GetModuleListTH32 load pid =
        (case snapshot (the (load ''kernel32.dll'')) pid of
           None \<Rightarrow> (False, [LoadLibrary ''kernel32.dll'', FreeLibrary ''kernel32.dll''])
         | Some ms \<Rightarrow>
             (ms \<noteq> [], [LoadLibrary ''kernel32.dll''] @ map LoadModule ms
                @ [CloseHandle, FreeLibrary ''kernel32.dll'']))"
    by (simp add: GetModuleListTH32_def h split: option.splits)
next
  assume kt: "\<not> yields_all (load ''kernel32.dll'') \<and> yields_all (load ''tlhelp32.dll'')"
  then obtain h where h: "load ''tlhelp32.dll'' = Some h"
    by (auto simp: yields_all_def split: option.splits)
  from kt have "find_toolhelp load dllname =
      (Some (''tlhelp32.dll'', h),
       LoadLibrary ''kernel32.dll''
         # (if load ''kernel32.dll'' = None then [] else [FreeLibrary ''kernel32.dll''])
         @ [LoadLibrary ''tlhelp32.dll''])"
    by (simp add: find_toolhelp_dllname h)
  then show "GetModuleListTH32 load pid =
        (let tried = LoadLibrary ''kernel32.dll''
               # (if load ''kernel32.dll'' = None then [] else [FreeLibrary ''kernel32.dll''])
               @ [LoadLibrary ''tlhelp32.dll'']
         in case snapshot (the (load ''tlhelp32.dll'')) pid of
              None \<Rightarrow> (False, tried @ [FreeLibrary ''tlhelp32.dll''])
            | Some ms \<Rightarrow>
                (ms \<noteq> [], tried @ map LoadModule ms @ [CloseHandle, FreeLibrary ''tlhelp32.dll'']))"
    by (simp add: GetModuleListTH32_def h Let_def split: option.splits)
next
  assume "\<not> yields_all (load ''kernel32.dll'') \<and> \<not> yields_all (load ''tlhelp32.dll'')"
  then have "fst (find_toolhelp load dllname) = None"
    by (simp add: find_toolhelp_dllname)
  then show "\<not> fst (GetModuleListTH32 load pid)"
    by (cases "find_toolhelp load dllname") (simp add: GetModuleListTH32_def)
qed

lemmas windows_defs = old_windows_def partial_kernel32_def full_tlhelp32_def

text \<open>An instance of the second case: the first library yields one entry point of three.\<close>

theorem GetModuleListTH32_choice_witness:
  "\<not> yields_all (old_windows ''kernel32.dll'') \<and> yields_all (old_windows ''tlhelp32.dll'') \<and>
   GetModuleListTH32 old_windows 7 =
     (True, [LoadLibrary ''kernel32.dll'', FreeLibrary ''kernel32.dll'', LoadLibrary ''tlhelp32.dll'',
             LoadModule ''app.exe'', LoadModule ''ntdll.dll'', CloseHandle,
             FreeLibrary ''tlhelp32.dll''])"
proof -
  have h: "\<not> yields_all (old_windows ''kernel32.dll'') \<and> yields_all (old_windows ''tlhelp32.dll'')"
    by (simp add: yields_all_def windows_defs)
  with GetModuleListTH32_choice [of old_windows 7]
  have "GetModuleListTH32 old_windows 7 =
        (let tried = LoadLibrary ''kernel32.dll''
               # (if old_windows ''kernel32.dll'' = None then [] else [FreeLibrary ''kernel32.dll''])
               @ [LoadLibrary ''tlhelp32.dll'']
         in case snapshot (the (old_windows ''tlhelp32.dll'')) 7 of
              None \<Rightarrow> (False, tried @ [FreeLibrary ''tlhelp32.dll''])
            | Some ms \<Rightarrow>
                (ms \<noteq> [], tried @ map LoadModule ms @ [CloseHandle, FreeLibrary ''tlhelp32.dll'']))"
    by blast
  then have "GetModuleListTH32 old_windows 7 =
     (True, [LoadLibrary ''kernel32.dll'', FreeLibrary ''kernel32.dll'', LoadLibrary ''tlhelp32.dll'',
             LoadModule ''app.exe'', LoadModule ''ntdll.dll'', CloseHandle,
             FreeLibrary ''tlhelp32.dll''])"
    by (simp add: windows_defs)
  with h show ?thesis by blast
qed

text \<open>
  Claim C8 as it was stated fails: \<open>kernel32.dll\<close> is found and yields one of the three
  entry points, and the function goes on to load \<open>tlhelp32.dll\<close> and uses it.
\<close>

theorem GetModuleListTH32_counterexample:
  "old_windows ''kernel32.dll'' = Some partial_kernel32 \<and>
   exports partial_kernel32 ''CreateToolhelp32Snapshot'' \<and>
   \<not> exports partial_kernel32 ''Module32First'' \<and>
   GetModuleListTH32 old_windows 7 =
     (True, [LoadLibrary ''kernel32.dll'', FreeLibrary ''kernel32.dll'', LoadLibrary ''tlhelp32.dll'',
             LoadModule ''app.exe'', LoadModule ''ntdll.dll'', CloseHandle,
             FreeLibrary ''tlhelp32.dll''])"
  by (simp add: GetModuleListTH32_def dllname_def windows_defs)


section \<open>The frames of the resolver\<close>





lemma second_line_fgets:
  assumes "fgets 4095 f = Some (l1, r1)" "fgets 4095 r1 = Some (l2, r2)"
  shows "second_line f = l2"
  using assms by (simp add: second_line_def)

lemma fgets_end: "fgets n f = None \<Longrightarrow> n > 1 \<Longrightarrow> f = []"
  by (auto simp: fgets_def Let_def split: if_splits)








section \<open>pack and unpack\<close>

lemma length_le_bytes: "length (le_bytes k n) = k"
  by (induction k arbitrary: n) simp_all

lemma le_value_le_bytes: "le_value (le_bytes k n) = n mod 256 ^ k"
proof (induction k arbitrary: n)
  case 0
  show ?case by simp
next
  case (Suc k)
  have "n mod 256 + 256 * (n div 256 mod 256 ^ k) = n mod (256 * 256 ^ k)"
    by (simp add: mod_mult2_eq)
  then show ?case by (simp add: Suc.IH)
qed

lemma le_value_le_bytes_small: "n < 256 ^ k \<Longrightarrow> le_value (le_bytes k n) = n"
  by (simp add: le_value_le_bytes)

lemma unpack_pack_array:
  assumes "length s < 256 ^ w"
  shows "unpack_array w (pack_array w s @ rest) = Some (s, rest)"
  using assms
  by (simp add: unpack_array_def pack_array_def length_le_bytes le_value_le_bytes_small)

lemma unat_64_small: "unat (x :: 64 word) < 256 ^ 8"
  using unsigned_less [of x, where 'a = nat] by simp

text \<open>The line comes back clamped to 255.\<close>

lemma unpack_pack_clamped:
  assumes "length (object f) < 256 ^ w"
    and "length (filename f) < 256 ^ w"
    and "length (function_name f) < 256 ^ w"
  shows "unpack w (pack w f @ rest) = Some (f\<lparr>line := of_nat (min (unat (line f)) 255)\<rparr>, rest)"
proof -
  define tl1 where "tl1 = pack_array w (filename f) @ pack_array w (function_name f) @ rest"
  define tl2 where "tl2 = pack_array w (function_name f) @ rest"
  define body where "body = pack_array w (object f) @ tl1"
  define bs where "bs = pack w f @ rest"
  have p: "bs =
      le_bytes 8 (unat (stack_info.address f)) @ le_bytes 8 (unat (address2 f))
        @ le_bytes 4 (min (unat (line f)) 255) @ body"
    by (simp add: bs_def pack_def body_def tl1_def)
  have len: "\<not> length bs < 20" by (simp add: p length_le_bytes)
  have d20: "drop 20 bs = body" by (simp add: p length_le_bytes)
  have a1: "take 8 bs = le_bytes 8 (unat (stack_info.address f))"
    by (simp add: p length_le_bytes)
  have a2: "take 8 (drop 8 bs) = le_bytes 8 (unat (address2 f))"
    by (simp add: p length_le_bytes)
  have a3: "take 4 (drop 16 bs) = le_bytes 4 (min (unat (line f)) 255)"
    by (simp add: p length_le_bytes)
  have v1: "of_nat (le_value (le_bytes 8 (unat (stack_info.address f)))) = stack_info.address f"
    using unat_64_small [of "stack_info.address f"] by (simp add: le_value_le_bytes_small)
  have v2: "of_nat (le_value (le_bytes 8 (unat (address2 f)))) = address2 f"
    using unat_64_small [of "address2 f"] by (simp add: le_value_le_bytes_small)
  have "min (unat (line f)) 255 < 256 ^ 4" by simp
  then have v3: "le_value (le_bytes 4 (min (unat (line f)) 255)) = min (unat (line f)) 255"
    by (rule le_value_le_bytes_small)
  have u1: "unpack_array w body = Some (object f, tl1)"
    unfolding body_def using assms(1) by (rule unpack_pack_array)
  have u2: "unpack_array w tl1 = Some (filename f, tl2)"
    unfolding tl1_def tl2_def using assms(2) by (rule unpack_pack_array)
  have u3: "unpack_array w tl2 = Some (function_name f, rest)"
    unfolding tl2_def using assms(3) by (rule unpack_pack_array)
  have "unpack w bs = Some (f\<lparr>line := of_nat (min (unat (line f)) 255)\<rparr>, rest)"
    unfolding unpack_def using len
    by (simp add: d20 u1 u2 u3 a1 a2 a3 v1 v2 v3)
  then show ?thesis by (simp add: bs_def)
qed

text \<open>
  Claim C4. For every frame whose line is at most 255 and whose three strings are
  short enough for the length prefix of \<open>w\<close> bytes, \<open>unpack\<close> of the bytes that
  \<open>pack\<close> writes, whatever follows them, is the frame and what follows.
\<close>

theorem unpack_pack:
  assumes "unat (line f) \<le> 255"
    and "length (object f) < 256 ^ w"
    and "length (filename f) < 256 ^ w"
    and "length (function_name f) < 256 ^ w"
  shows "unpack w (pack w f @ rest) = Some (f, rest)"
proof -
  have "min (unat (line f)) 255 = unat (line f)" using assms(1) by simp
  then have "f\<lparr>line := of_nat (min (unat (line f)) 255)\<rparr> = f" by simp
  with unpack_pack_clamped [OF assms(2-4), of rest] show ?thesis by simp
qed

theorem unpack_pack_witness:
  "unat (line main_frame) \<le> 255 \<and> length (object main_frame) < 256 ^ 4 \<and>
   length (filename main_frame) < 256 ^ 4 \<and> length (function_name main_frame) < 256 ^ 4 \<and>
   length (pack 4 main_frame) = 52 \<and>
   unpack 4 (pack 4 main_frame) = Some (main_frame, [])"
proof -
  have h: "unat (line main_frame) \<le> 255" "length (object main_frame) < 256 ^ 4"
    "length (filename main_frame) < 256 ^ 4" "length (function_name main_frame) < 256 ^ 4"
    by (simp_all add: main_frame_def)
  have l: "length (pack 4 main_frame) = 52"
    by (simp add: pack_def pack_array_def length_le_bytes main_frame_def)
  from unpack_pack [OF h, of "[]"] have "unpack 4 (pack 4 main_frame) = Some (main_frame, [])"
    by simp
  with h l show ?thesis by blast
qed

text \<open>
  StackTrace.h holds \<open>object\<close> and \<open>filename\<close> in 128 bytes and \<open>function\<close> in
  512 bytes: such strings fit every length prefix of two bytes or more.
\<close>

lemma unpack_pack_header_sizes:
  assumes "unat (line f) \<le> 255" and "2 \<le> w"
    and "length (object f) \<le> 128" and "length (filename f) \<le> 128"
    and "length (function_name f) \<le> 512"
  shows "unpack w (pack w f @ rest) = Some (f, rest)"
proof -
  have "(256::nat) ^ 2 \<le> 256 ^ w" using assms(2) by (intro power_increasing) simp_all
  then have big: "(65536::nat) \<le> 256 ^ w" by simp
  have "min (unat (line f)) 255 = unat (line f)" using assms(1) by simp
  then have "f\<lparr>line := of_nat (min (unat (line f)) 255)\<rparr> = f" by simp
  moreover have "length (object f) < 256 ^ w" "length (filename f) < 256 ^ w"
    "length (function_name f) < 256 ^ w"
    using assms(3-5) big by simp_all
  ultimately show ?thesis using unpack_pack_clamped [of f w rest] by simp
qed

text \<open>A line above 255 does not come back: 300 is unpacked as 255.\<close>

lemma unpack_pack_line_300:
  "unpack 4 (pack 4 (main_frame\<lparr>line := 300\<rparr>)) = Some (main_frame\<lparr>line := 255\<rparr>, [])"
  using unpack_pack_clamped [of "main_frame\<lparr>line := 300\<rparr>" 4 "[]"]
  by (simp add: main_frame_def)

end
